theory Spec2Isabelle
  imports Main "HOL-Library.Word"
begin

section \<open>Go library functions used by the core package\<close>

text \<open>
  Go strings are byte sequences; they are modelled as \<open>string\<close> (a list of 8-bit
  characters). The functions of package \<open>strings\<close> that \<open>address.go\<close> calls follow
  the documentation of the Go standard library. \<open>Split\<close> is only ever called
  with the separator \<open>"/"\<close>, so the separator is a single character here.
\<close>

definition HasPrefix :: "string \<Rightarrow> string \<Rightarrow> bool" where
  "HasPrefix s prefix = (take (length prefix) s = prefix)"

definition HasSuffix :: "string \<Rightarrow> string \<Rightarrow> bool" where
  "HasSuffix s suffix =
     (length suffix \<le> length s \<and> drop (length s - length suffix) s = suffix)"

definition TrimPrefix :: "string \<Rightarrow> string \<Rightarrow> string" where
  "TrimPrefix s prefix = (if HasPrefix s prefix then drop (length prefix) s else s)"

fun Split :: "string \<Rightarrow> char \<Rightarrow> string list" where
  "Split [] sep = [[]]"
| "Split (c # cs) sep =
     (if c = sep then [] # Split cs sep
      else (case Split cs sep of
              [] \<Rightarrow> [[c]]
            | p # ps \<Rightarrow> (c # p) # ps))"

fun Join :: "string list \<Rightarrow> string \<Rightarrow> string" where
  "Join [] sep = []"
| "Join [a] sep = a"
| "Join (a # b # rest) sep = a @ sep @ Join (b # rest) sep"

section \<open>Errors, panics and dynamic values\<close>

text \<open>
  A Go \<open>error\<close> is identified by the text its \<open>Error()\<close> method returns.
  \<open>fmt.Errorf("prefix: %w", err)\<close> is \<open>Errorf_wrap ''prefix: '' err\<close>. A function
  returning \<open>(T, error)\<close> returns \<open>error + T\<close> here, \<open>Inl\<close> carrying the error; a
  function returning only \<open>error\<close> returns \<open>error option\<close>, \<open>None\<close> being \<open>nil\<close>.
  A run-time panic (nil dereference, failed type assertion) is the outcome \<open>Panic\<close>.
\<close>

datatype error = Error string

fun error_text :: "error \<Rightarrow> string" where
  "error_text (Error msg) = msg"

definition Errorf_wrap :: "string \<Rightarrow> error \<Rightarrow> error" where
  "Errorf_wrap prefix err = Error (prefix @ error_text err)"

text \<open>\<open>%v\<close> applied to a slice of errors prints the texts between brackets, separated by spaces.\<close>

definition format_errors :: "error list \<Rightarrow> string" where
  "format_errors errs = ''['' @ Join (map error_text errs) '' '' @ '']''"

datatype 'a outcome = Return 'a | Panic

text \<open>
  Values of type \<open>interface{}\<close> as they occur in payloads: \<open>nil\<close>, a string, a
  \<open>[]interface{}\<close>, a \<open>map[string]interface{}\<close> (keys in some order, the first binding
  of a key counts), a \<open>[]string\<close>, or a value of any other dynamic type.
\<close>

datatype dyn =
    DNil
  | DString string
  | DSlice "dyn list"
  | DMap "(string \<times> dyn) list"
  | DStrings "string list"
  | DOther

text \<open>Indexing a Go map with a missing key yields the zero value, the nil interface.\<close>

definition map_index :: "(string \<times> dyn) list \<Rightarrow> string \<Rightarrow> dyn" where
  "map_index m k = (case map_of m k of None \<Rightarrow> DNil | Some v \<Rightarrow> v)"

section \<open>Logical addresses (address.go)\<close>

text \<open>
  A \<open>multiaddr.Multiaddr\<close> is identified by its textual form, which \<open>String()\<close>
  returns. A transport hint is an \<open>interface{}\<close>: a multiaddr, a string, \<open>nil\<close>
  or a value of another type.
\<close>

datatype multiaddr = Multiaddr string

fun multiaddr_String :: "multiaddr \<Rightarrow> string" where
  "multiaddr_String (Multiaddr s) = s"

datatype transport = TMultiaddr multiaddr | TString string | TNil | TOther

text \<open>
  Addresses are handled through pointers (\<open>*OAddress\<close>) and \<open>SetTransports\<close> writes
  through the pointer, so the model has an explicit store. The store holds the
  \<open>OAddress\<close> structs and the backing arrays of their \<open>[]interface{}\<close> slices; a
  pointer is an index into \<open>addrs\<close>, a slice is \<open>nil\<close> (\<open>None\<close>) or refers to a
  whole backing array (the code never re-slices). Allocation appends, so a new object
  never coincides with a live one. A pointer outside the store plays the role of the nil
  pointer: dereferencing it panics.
\<close>

type_synonym ptr = nat
type_synonym slice = "nat option"

record OAddress =
  val :: string
  transports :: slice

record store =
  addrs :: "OAddress list"
  arrays :: "transport list list"

definition load :: "store \<Rightarrow> ptr \<Rightarrow> OAddress option" where
  "load st p = (if p < length (addrs st) then Some (addrs st ! p) else None)"

definition elems :: "store \<Rightarrow> slice \<Rightarrow> transport list" where
  "elems st sl =
     (case sl of
        None \<Rightarrow> []
      | Some r \<Rightarrow> (if r < length (arrays st) then arrays st ! r else []))"

text \<open>\<open>make([]interface{}, n)\<close>: a new backing array of \<open>n\<close> nil interfaces.\<close>

definition make_slice :: "store \<Rightarrow> nat \<Rightarrow> nat \<times> store" where
  "make_slice st n = (length (arrays st), st\<lparr>arrays := arrays st @ [replicate n TNil]\<rparr>)"

text \<open>\<open>a[i] = t\<close> on the array \<open>r\<close>.\<close>

definition set_elem :: "store \<Rightarrow> nat \<Rightarrow> nat \<Rightarrow> transport \<Rightarrow> store" where
  "set_elem st r i t = st\<lparr>arrays := (arrays st)[r := (arrays st ! r)[i := t]]\<rparr>"

text \<open>\<open>for i, t := range ts { a[i] = t }\<close>, from index \<open>i\<close> on.\<close>

fun fill :: "store \<Rightarrow> nat \<Rightarrow> nat \<Rightarrow> transport list \<Rightarrow> store" where
  "fill st r i [] = st"
| "fill st r i (t # ts) = fill (set_elem st r i t) r (Suc i) ts"

text \<open>\<open>&OAddress{value: v, transports: sl}\<close>.\<close>

definition new_struct :: "store \<Rightarrow> string \<Rightarrow> slice \<Rightarrow> ptr \<times> store" where
  "new_struct st v sl =
     (length (addrs st), st\<lparr>addrs := addrs st @ [\<lparr>val = v, transports = sl\<rparr>]\<rparr>)"

text \<open>
  \<open>NewOAddress(value, transports...)\<close> called with a slice: the struct keeps the
  slice it is given (the variadic parameter shares the caller's backing array).
\<close>

definition NewOAddress :: "store \<Rightarrow> string \<Rightarrow> slice \<Rightarrow> ptr \<times> store" where
  "NewOAddress st v sl = new_struct st v sl"

definition Value :: "store \<Rightarrow> ptr \<Rightarrow> string option" where
  "Value st addr = map_option val (load st addr)"

definition SetTransports :: "store \<Rightarrow> ptr \<Rightarrow> multiaddr list \<Rightarrow> store option" where
  "SetTransports st addr ts =
     (case load st addr of
        None \<Rightarrow> None
      | Some a \<Rightarrow>
          (let (r, st1) = make_slice st (length ts);
               st2 = st1\<lparr>addrs := (addrs st1)[addr := a\<lparr>transports := Some r\<rparr>]\<rparr>
           in Some (fill st2 r 0 (map TMultiaddr ts))))"

definition SetTransportsFromStrings :: "store \<Rightarrow> ptr \<Rightarrow> string list \<Rightarrow> store option" where
  "SetTransportsFromStrings st addr ts =
     (case load st addr of
        None \<Rightarrow> None
      | Some a \<Rightarrow>
          (let (r, st1) = make_slice st (length ts);
               st2 = st1\<lparr>addrs := (addrs st1)[addr := a\<lparr>transports := Some r\<rparr>]\<rparr>
           in Some (fill st2 r 0 (map TString ts))))"

fun LibP2PTransports_of :: "transport list \<Rightarrow> multiaddr list" where
  "LibP2PTransports_of [] = []"
| "LibP2PTransports_of (TMultiaddr ma # ts) = ma # LibP2PTransports_of ts"
| "LibP2PTransports_of (_ # ts) = LibP2PTransports_of ts"

fun CustomTransports_of :: "transport list \<Rightarrow> string list" where
  "CustomTransports_of [] = []"
| "CustomTransports_of (TString s # ts) = s # CustomTransports_of ts"
| "CustomTransports_of (_ # ts) = CustomTransports_of ts"

fun AllTransports_of :: "transport list \<Rightarrow> string list" where
  "AllTransports_of [] = []"
| "AllTransports_of (TMultiaddr v # ts) = multiaddr_String v # AllTransports_of ts"
| "AllTransports_of (TString v # ts) = v # AllTransports_of ts"
| "AllTransports_of (_ # ts) = AllTransports_of ts"

definition LibP2PTransports :: "store \<Rightarrow> ptr \<Rightarrow> multiaddr list option" where
  "LibP2PTransports st addr =
     map_option (\<lambda>a. LibP2PTransports_of (elems st (transports a))) (load st addr)"

definition CustomTransports :: "store \<Rightarrow> ptr \<Rightarrow> string list option" where
  "CustomTransports st addr =
     map_option (\<lambda>a. CustomTransports_of (elems st (transports a))) (load st addr)"

definition AllTransports :: "store \<Rightarrow> ptr \<Rightarrow> string list option" where
  "AllTransports st addr =
     map_option (\<lambda>a. AllTransports_of (elems st (transports a))) (load st addr)"

text \<open>The remaining methods only read the \<open>value\<close> field; they are given on the string.\<close>

definition Validate :: "string \<Rightarrow> bool" where
  "Validate v = HasPrefix v ''o://''"

definition Paths :: "string \<Rightarrow> string" where
  "Paths v = TrimPrefix v ''o://''"

definition Root :: "string \<Rightarrow> string" where
  "Root v =
     (let paths = Paths v in
      if paths = [] then v
      else (let parts = Split paths CHR ''/'' in
            if length parts = 0 then v else ''o://'' @ hd parts))"

definition SplitAddress :: "string \<Rightarrow> string list" where
  "SplitAddress v =
     (let paths = Paths v in
      if paths = [] then [] else Split paths CHR ''/'')"

text \<open>\<open>WithPath\<close>: the new value, and the method on the store.\<close>

definition WithPath_value :: "string \<Rightarrow> string \<Rightarrow> string" where
  "WithPath_value v path =
     (let newValue = v;
          newValue = (if \<not> HasSuffix newValue ''/'' \<and> \<not> HasPrefix path ''/''
                      then newValue @ ''/'' else newValue)
      in newValue @ path)"

definition WithPath :: "store \<Rightarrow> ptr \<Rightarrow> string \<Rightarrow> (ptr \<times> store) option" where
  "WithPath st addr path =
     (case load st addr of
        None \<Rightarrow> None
      | Some a \<Rightarrow> Some (NewOAddress st (WithPath_value (val a) path) (transports a)))"

definition WithTransports :: "store \<Rightarrow> ptr \<Rightarrow> slice \<Rightarrow> (ptr \<times> store) option" where
  "WithTransports st addr sl =
     (case load st addr of
        None \<Rightarrow> None
      | Some a \<Rightarrow> Some (NewOAddress st (val a) sl))"

text \<open>\<open>copy(dst, src)\<close> copies \<open>min (len dst) (len src)\<close> elements, front to back.\<close>

definition copy_elems :: "store \<Rightarrow> nat \<Rightarrow> transport list \<Rightarrow> store" where
  "copy_elems st r src = fill st r 0 (take (length (arrays st ! r)) src)"

definition Clone :: "store \<Rightarrow> ptr \<Rightarrow> (ptr \<times> store) option" where
  "Clone st addr =
     (case load st addr of
        None \<Rightarrow> None
      | Some a \<Rightarrow>
          (let (r, st1) = make_slice st (length (elems st (transports a)));
               (newAddr, st2) = new_struct st1 (val a) (Some r)
           in Some (newAddr, copy_elems st2 r (elems st2 (transports a)))))"

section \<open>Types of the node (types.go)\<close>

datatype NodeState =
    NodeStateStarting
  | NodeStateRunning
  | NodeStateStopping
  | NodeStateStopped
  | NodeStateError

type_synonym NodeType = string

definition NodeTypeLeader :: NodeType where
  "NodeTypeLeader = ''leader''"

definition NodeTypeUnknown :: NodeType where
  "NodeTypeUnknown = ''unknown''"

datatype LogLevel = LogLevelDebug | LogLevelInfo | LogLevelWarn | LogLevelError

text \<open>The fields of \<open>CoreConfig\<close> that the node reads after construction.\<close>

record CoreConfig =
  Leader :: "ptr option"
  Parent :: "ptr option"
  Type :: NodeType

record OError =
  Code :: int
  Message :: string
  Data :: dyn

record OResponse =
  ID :: string
  Result :: dyn
  resp_Error :: "OError option"

record UseOptions =
  NoIndex :: bool
  Timeout :: int

definition DefaultUseOptions :: UseOptions where
  "DefaultUseOptions = \<lparr>NoIndex = False, Timeout = 30\<rparr>"

record ConnectionSendParams =
  sp_Address :: string
  sp_Payload :: "(string \<times> dyn) list"

record ConnectionParams =
  cp_Address :: ptr
  cp_NextHopAddress :: ptr
  cp_CallerAddress :: ptr

record TranslateAddressResult =
  NextHopAddress :: ptr
  TargetAddress :: ptr

text \<open>
  The collaborators behind the interfaces \<open>Connection\<close>, \<open>ConnectionManager\<close>,
  \<open>host.Host\<close> and \<open>AddressResolver\<close> are outside the repository. Each method is a
  function of the state \<open>'w\<close> of the outside world, which it may change; a resolver
  returns a pointer, so it also receives and returns the store. A \<open>*OResponse\<close> may
  be nil (\<open>None\<close>).
\<close>

record 'w Connection =
  Send :: "ConnectionSendParams \<Rightarrow> 'w \<Rightarrow> (error + OResponse option) \<times> 'w"
  Close :: "'w \<Rightarrow> error option \<times> 'w"

record 'w ConnectionManager =
  cm_Connect :: "ConnectionParams \<Rightarrow> store \<Rightarrow> 'w \<Rightarrow> (error + 'w Connection) \<times> 'w"

record 'w Host =
  Addrs :: "'w \<Rightarrow> multiaddr list"
  host_Close :: "'w \<Rightarrow> error option \<times> 'w"

type_synonym 'w AddressResolver = "ptr \<Rightarrow> store \<Rightarrow> 'w \<Rightarrow> (error + ptr) \<times> store \<times> 'w"

section \<open>Resolver chain (types.go)\<close>

fun Resolve :: "'w AddressResolver list \<Rightarrow> ptr \<Rightarrow> store \<Rightarrow> 'w \<Rightarrow> (error + ptr) \<times> store \<times> 'w" where
  "Resolve [] address st w = (Inr address, st, w)"
| "Resolve (resolver # rest) address st w =
     (case resolver address st w of
        (Inr resolved, st', w') \<Rightarrow> (Inr resolved, st', w')
      | (Inl err, st', w') \<Rightarrow> Resolve rest address st' w')"

section \<open>The node\<close>

text \<open>
  \<open>CoreNode\<close>: the \<open>logger\<close> field is the sequence of calls the logger has received
  (level and formatted message, oldest first); the counters are \<open>int64\<close>. The running
  system is the node, the store of addresses, the outside world and the multiaddr parser
  \<open>multiaddr.NewMultiaddr\<close> of the transport library.
\<close>

record 'w CoreNode =
  p2pNode :: "'w Host option"
  logger :: "(LogLevel \<times> string) list"
  address :: ptr
  staticAddress :: ptr
  peerId :: string
  state :: NodeState
  errors :: "error list"
  connectionManager :: "'w ConnectionManager option"
  addressResolution :: "'w AddressResolver list"
  successCount :: "64 word"
  errorCount :: "64 word"
  config :: CoreConfig

record 'w sys =
  node :: "'w CoreNode"
  heap :: store
  world :: 'w
  NewMultiaddr :: "string \<Rightarrow> error + multiaddr"

definition log_call :: "LogLevel \<Rightarrow> string \<Rightarrow> 'w sys \<Rightarrow> 'w sys" where
  "log_call level msg s = s\<lparr>node := (node s)\<lparr>logger := logger (node s) @ [(level, msg)]\<rparr>\<rparr>"

definition Type' :: "'w sys \<Rightarrow> NodeType" where
  "Type' s = (if Type (config (node s)) = [] then NodeTypeUnknown else Type (config (node s)))"

definition State :: "'w sys \<Rightarrow> NodeState" where
  "State s = state (node s)"

definition setState :: "NodeState \<Rightarrow> 'w sys \<Rightarrow> 'w sys" where
  "setState st s = s\<lparr>node := (node s)\<lparr>state := st\<rparr>\<rparr>"

definition Errors :: "'w sys \<Rightarrow> error list" where
  "Errors s = errors (node s)"

definition addError :: "error \<Rightarrow> 'w sys \<Rightarrow> 'w sys" where
  "addError err s = s\<lparr>node := (node s)\<lparr>errors := errors (node s) @ [err]\<rparr>\<rparr>"

definition incrementSuccessCount :: "'w sys \<Rightarrow> 'w sys" where
  "incrementSuccessCount s = s\<lparr>node := (node s)\<lparr>successCount := successCount (node s) + 1\<rparr>\<rparr>"

definition incrementErrorCount :: "'w sys \<Rightarrow> 'w sys" where
  "incrementErrorCount s = s\<lparr>node := (node s)\<lparr>errorCount := errorCount (node s) + 1\<rparr>\<rparr>"

definition Transports :: "'w sys \<Rightarrow> string list" where
  "Transports s =
     (case p2pNode (node s) of
        None \<Rightarrow> []
      | Some h \<Rightarrow> map multiaddr_String (Addrs h (world s)))"

text \<open>The loop that parses transport strings and keeps those that parse.\<close>

fun parse_transports :: "(string \<Rightarrow> error + multiaddr) \<Rightarrow> string list \<Rightarrow> multiaddr list" where
  "parse_transports parse [] = []"
| "parse_transports parse (transport # rest) =
     (case parse transport of
        Inr ma \<Rightarrow> ma # parse_transports parse rest
      | Inl err \<Rightarrow> parse_transports parse rest)"

definition GetTransports :: "'w sys \<Rightarrow> ptr \<Rightarrow> multiaddr list outcome \<times> 'w sys" where
  "GetTransports s addr =
     (case LibP2PTransports (heap s) addr of
        None \<Rightarrow> (Panic, s)
      | Some leaderTransports \<Rightarrow>
          if length leaderTransports > 0 then (Return leaderTransports, s)
          else if length leaderTransports = 0 then
            (let s1 = log_call LogLevelDebug
                        ''No leader transports provided, searching within network'' s
             in case Leader (config (node s1)) of
                  None \<Rightarrow>
                    if Type' s1 = NodeTypeLeader then
                      (let s2 = log_call LogLevelDebug ''Node is a leader, using own transports'' s1;
                           transports = Transports s2
                       in (Return (parse_transports (NewMultiaddr s2) transports), s2))
                    else
                      (Return leaderTransports,
                       log_call LogLevelWarn
                         ''Not within a network, cannot search for addressed node without leader'' s1)
                | Some leader \<Rightarrow>
                    (case LibP2PTransports (heap s1) leader of
                       None \<Rightarrow> (Panic, s1)
                     | Some ts \<Rightarrow> (Return ts, s1)))
          else (Return leaderTransports, s))"

definition Connect :: "'w sys \<Rightarrow> ptr \<Rightarrow> ptr \<Rightarrow> (error + 'w Connection) outcome \<times> 'w sys" where
  "Connect s nextHopAddress targetAddress =
     (case connectionManager (node s) of
        None \<Rightarrow> (Return (Inl (Error ''connection manager not initialized'')), s)
      | Some cm \<Rightarrow>
          (let params = \<lparr>cp_Address = targetAddress, cp_NextHopAddress = nextHopAddress,
                         cp_CallerAddress = address (node s)\<rparr>
           in case cm_Connect cm params (heap s) (world s) of
                (Inl err, w') \<Rightarrow>
                  if error_text err = ''Can not dial self'' then
                    (Return (Inl (Error
                       ''cannot dial self - ensure you're not connecting directly through the leader node'')),
                     s\<lparr>world := w'\<rparr>)
                  else (Return (Inl (Errorf_wrap ''connection failed: '' err)), s\<lparr>world := w'\<rparr>)
              | (Inr connection, w') \<Rightarrow>
                  (case Value (heap s) nextHopAddress of
                     None \<Rightarrow> (Panic, s\<lparr>world := w'\<rparr>)
                   | Some v \<Rightarrow>
                       (Return (Inr connection),
                        log_call LogLevelDebug (''Successfully connected to: '' @ v)
                          (s\<lparr>world := w'\<rparr>)))))"

text \<open>The deferred \<open>connection.Close()\<close>: its error is dropped.\<close>

definition deferred_Close :: "'w Connection \<Rightarrow> 'w sys \<Rightarrow> 'w sys" where
  "deferred_Close connection s = s\<lparr>world := snd (Close connection (world s))\<rparr>"

text \<open>The address \<open>o://leader\<close> prefix test that guards the registry lookup.\<close>

definition under_leader :: "'w sys \<Rightarrow> ptr \<Rightarrow> bool" where
  "under_leader s a =
     (case load (heap s) a of None \<Rightarrow> True | Some x \<Rightarrow> HasPrefix (val x) ''o://leader'')"

text \<open>
  The transports copied into a new \<open>[]interface{}\<close> as strings
  (\<open>transports[i] = t\<close> for the strings of \<open>AllTransports\<close>).
\<close>

definition strings_to_slice :: "store \<Rightarrow> string list \<Rightarrow> nat \<times> store" where
  "strings_to_slice st ts =
     (let (r, st1) = make_slice st (length ts) in (r, fill st1 r 0 (map TString ts)))"

text \<open>
  The block of \<open>HandleStaticAddressTranslation\<close> that processes the search response
  (from \<open>if response.Result != nil\<close> to the final \<open>return result, nil\<close>). The type
  assertion \<open>response.Result.(map[string]interface{})\<close> has no \<open>ok\<close> result, so it
  panics on a non-nil \<open>Result\<close> that is not a map; the other assertions are checked.
\<close>

definition process_search_results ::
  "'w sys \<Rightarrow> ptr \<Rightarrow> OResponse option \<Rightarrow> (error + ptr) outcome \<times> 'w sys" where
  "process_search_results s addressInput response =
     (let result = addressInput in
      case response of
        None \<Rightarrow> (Panic, s)
      | Some resp \<Rightarrow>
          (case Result resp of
             DNil \<Rightarrow> (Return (Inr result), s)
           | DMap m \<Rightarrow>
               (case map_index m ''data'' of
                  DSlice (first # rest) \<Rightarrow>
                    (case first of
                       DMap firstResult \<Rightarrow>
                         (case map_index firstResult ''address'' of
                            DString resolvedAddr \<Rightarrow>
                              (case load (heap s) addressInput of
                                 None \<Rightarrow> (Panic, s)
                               | Some input \<Rightarrow>
                                   (let parts = SplitAddress (val input);
                                        resolvedAddr =
                                          (if length parts > 1
                                           then resolvedAddr @ ''/'' @ Join (drop 1 parts) ''/''
                                           else resolvedAddr)
                                    in case AllTransports (heap s) result of
                                         None \<Rightarrow> (Panic, s)
                                       | Some ts \<Rightarrow>
                                           (let (sl, st1) = strings_to_slice (heap s) ts;
                                                (result, st2) = NewOAddress st1 resolvedAddr (Some sl)
                                            in (Return (Inr result), s\<lparr>heap := st2\<rparr>))))
                          | _ \<Rightarrow> (Return (Inr result), s))
                     | _ \<Rightarrow> (Return (Inr result), s))
                | _ \<Rightarrow>
                    (Return (Inr result),
                     log_call LogLevelWarn
                       ''Failed to translate static address - no results found'' s))
           | _ \<Rightarrow> (Panic, s)))"

text \<open>
  Whether the translation of an address still has a registry search to issue; this is the
  measure of the recursion below.
\<close>

definition lookup_pending :: "'w sys \<Rightarrow> ptr \<Rightarrow> nat" where
  "lookup_pending s a = (if under_leader s a then 0 else 1)"

text \<open>
  \<open>HandleStaticAddressTranslation\<close>, \<open>TranslateAddress\<close> and \<open>Use\<close> call each other:
  the static translation of an address outside \<open>o://leader\<close> issues the registry
  search through \<open>Use\<close>. The context argument is only handed on to the collaborators
  and is part of the world here. The recursion ends: the search address
  \<open>o://leader/register\<close> is under \<open>o://leader\<close>, so its own translation issues no
  further search.
\<close>

function
  HandleStaticAddressTranslation :: "'w sys \<Rightarrow> ptr \<Rightarrow> (error + ptr) outcome \<times> 'w sys" and
  TranslateAddress :: "'w sys \<Rightarrow> ptr \<Rightarrow> (error + TranslateAddressResult) outcome \<times> 'w sys" and
  Use :: "'w sys \<Rightarrow> ptr \<Rightarrow> string \<Rightarrow> (string \<times> dyn) list \<Rightarrow> UseOptions option
            \<Rightarrow> (error + OResponse option) outcome \<times> 'w sys"
where
  "HandleStaticAddressTranslation s addressInput =
     (let result = addressInput in
      case load (heap s) addressInput of
        None \<Rightarrow> (Panic, s)
      | Some input \<Rightarrow>
          if \<not> HasPrefix (val input) ''o://leader'' then
            (let (searchAddr, st1) = NewOAddress (heap s) ''o://leader/register'' None in
             case LibP2PTransports st1 result of
               None \<Rightarrow> (Panic, s\<lparr>heap := st1\<rparr>)
             | Some lts \<Rightarrow>
                 (case SetTransports st1 searchAddr lts of
                    None \<Rightarrow> (Panic, s\<lparr>heap := st1\<rparr>)
                  | Some st2 \<Rightarrow>
                      (case Use (s\<lparr>heap := st2\<rparr>) searchAddr ''search''
                              [(''staticAddress'', DString (Root (val input)))]
                              (Some \<lparr>NoIndex = True, Timeout = 0\<rparr>) of
                         (Panic, s3) \<Rightarrow> (Panic, s3)
                       | (Return (Inl err), s3) \<Rightarrow>
                           (Return (Inr result),
                            log_call LogLevelWarn
                              (''Failed to search for static address: '' @ error_text err) s3)
                       | (Return (Inr response), s3) \<Rightarrow>
                           process_search_results s3 addressInput response)))
          else (Return (Inr result), s))"
| "TranslateAddress s addressWithLeaderTransports =
     (let targetAddress = addressWithLeaderTransports in
      case HandleStaticAddressTranslation s targetAddress of
        (Panic, s1) \<Rightarrow> (Panic, s1)
      | (Return (Inl err), s1) \<Rightarrow>
          (Return (Inl (Errorf_wrap ''failed to handle static address translation: '' err)), s1)
      | (Return (Inr targetAddress), s1) \<Rightarrow>
          (case Resolve (addressResolution (node s1)) targetAddress (heap s1) (world s1) of
             (Inl err, st2, w2) \<Rightarrow>
               (Return (Inl (Errorf_wrap ''failed to resolve address: '' err)),
                s1\<lparr>heap := st2, world := w2\<rparr>)
           | (Inr nextHopAddress, st2, w2) \<Rightarrow>
               (case GetTransports (s1\<lparr>heap := st2, world := w2\<rparr>) nextHopAddress of
                  (Panic, s3) \<Rightarrow> (Panic, s3)
                | (Return leaderTransports, s3) \<Rightarrow>
                    (case SetTransports (heap s3) nextHopAddress leaderTransports of
                       None \<Rightarrow> (Panic, s3)
                     | Some st4 \<Rightarrow>
                         (Return (Inr \<lparr>NextHopAddress = nextHopAddress,
                                       TargetAddress = targetAddress\<rparr>),
                          s3\<lparr>heap := st4\<rparr>)))))"
| "Use s addr method params opts =
     (let opts = (case opts of None \<Rightarrow> DefaultUseOptions | Some opts \<Rightarrow> opts) in
      case TranslateAddress s addr of
        (Panic, s1) \<Rightarrow> (Panic, s1)
      | (Return (Inl err), s1) \<Rightarrow>
          (Return (Inl (Errorf_wrap ''failed to translate address: '' err)),
           incrementErrorCount s1)
      | (Return (Inr result), s1) \<Rightarrow>
          (case Connect s1 (NextHopAddress result) (TargetAddress result) of
             (Panic, s2) \<Rightarrow> (Panic, s2)
           | (Return (Inl err), s2) \<Rightarrow>
               (Return (Inl (Errorf_wrap ''failed to connect: '' err)), incrementErrorCount s2)
           | (Return (Inr connection), s2) \<Rightarrow>
               (case Value (heap s2) (TargetAddress result) of
                  None \<Rightarrow> (Panic, deferred_Close connection s2)
                | Some target \<Rightarrow>
                    (let sendParams = \<lparr>sp_Address = target,
                                       sp_Payload = [(''method'', DString method),
                                                     (''params'', DMap params)]\<rparr>
                     in case Send connection sendParams (world s2) of
                          (Inl err, w3) \<Rightarrow>
                            (Return (Inl (Errorf_wrap ''failed to send request: '' err)),
                             deferred_Close connection
                               (incrementErrorCount (s2\<lparr>world := w3\<rparr>)))
                        | (Inr response, w3) \<Rightarrow>
                            (Return (Inr response),
                             deferred_Close connection
                               (incrementSuccessCount (s2\<lparr>world := w3\<rparr>)))))))"
  by pat_completeness auto

termination
proof (relation "measure (\<lambda>x. case x of
          Inl (s, a) \<Rightarrow> 3 * lookup_pending s a
        | Inr (Inl (s, a)) \<Rightarrow> 3 * lookup_pending s a + 1
        | Inr (Inr (s, a, m, p, opts)) \<Rightarrow> 3 * lookup_pending s a + 2)", goal_cases)
  case 1
  show ?case by simp
next
  case (2 s addressInput x input xa searchAddr st1 lts st2)
  have fill_addrs: "addrs (fill st r i ts) = addrs st" for st r i ts
    by (induction ts arbitrary: st i) (simp_all add: set_elem_def)
  have "searchAddr = length (addrs (heap s))"
    and "addrs st1 = addrs (heap s) @ [\<lparr>val = ''o://leader/register'', transports = None\<rparr>]"
    using 2 by (auto simp: NewOAddress_def new_struct_def)
  with \<open>SetTransports st1 searchAddr lts = Some st2\<close>
  have "\<exists>a. load st2 searchAddr = Some a \<and> val a = ''o://leader/register''"
    by (auto simp: SetTransports_def load_def make_slice_def fill_addrs
             split: option.splits if_splits)
  then have "under_leader (s\<lparr>heap := st2\<rparr>) searchAddr"
    by (auto simp: under_leader_def HasPrefix_def)
  moreover have "\<not> under_leader s addressInput"
    using 2 by (simp add: under_leader_def)
  ultimately show ?case
    by (simp add: lookup_pending_def)
next
  case 3
  then show ?case by simp
next
  case 4
  then show ?case by simp
qed

declare HandleStaticAddressTranslation.simps [simp del]
declare TranslateAddress.simps [simp del]
declare Use.simps [simp del]

section \<open>Registration and lifecycle\<close>

definition Register :: "'w sys \<Rightarrow> error option outcome \<times> 'w sys" where
  "Register s =
     (if Type' s = NodeTypeLeader then
        (Return None, log_call LogLevelDebug ''Skipping registration - node is leader'' s)
      else
        (let s1 = log_call LogLevelDebug ''Registering node...'' s in
         case Leader (config (node s1)) of
           None \<Rightarrow>
             (Return None,
              log_call LogLevelWarn ''No leader configured, skipping registration'' s1)
         | Some leader \<Rightarrow>
             (let (addr, st1) = NewOAddress (heap s1) ''o://register'' None in
              case (Value st1 (address (node s1)), Value st1 (staticAddress (node s1))) of
                (Some own, Some static) \<Rightarrow>
                  (let params = [(''peerId'', DString (peerId (node s1))),
                                 (''address'', DString own),
                                 (''protocols'', DStrings []),
                                 (''transports'', DStrings (Transports s1)),
                                 (''staticAddress'', DString static)]
                   in case Use (s1\<lparr>heap := st1\<rparr>) addr ''commit'' params
                             (Some \<lparr>NoIndex = True, Timeout = 0\<rparr>) of
                        (Panic, s2) \<Rightarrow> (Panic, s2)
                      | (Return (Inl err), s2) \<Rightarrow>
                          (Return (Some (Errorf_wrap ''failed to register with leader: '' err)), s2)
                      | (Return (Inr response), s2) \<Rightarrow>
                          (Return None,
                           log_call LogLevelDebug ''Successfully registered with leader'' s2))
              | _ \<Rightarrow> (Panic, s1\<lparr>heap := st1\<rparr>))))"

definition Unregister :: "'w sys \<Rightarrow> error option outcome \<times> 'w sys" where
  "Unregister s =
     (if Type' s = NodeTypeLeader then
        (Return None, log_call LogLevelDebug ''Skipping unregistration - node is leader'' s)
      else
        (let (addr, st1) = NewOAddress (heap s) ''o://register'' None;
             params = [(''peerId'', DString (peerId (node s)))]
         in case Use (s\<lparr>heap := st1\<rparr>) addr ''remove'' params (Some DefaultUseOptions) of
              (Panic, s2) \<Rightarrow> (Panic, s2)
            | (Return (Inl err), s2) \<Rightarrow>
                (Return (Some err),
                 log_call LogLevelWarn
                   (''Failed to unregister from network: '' @ error_text err) s2)
            | (Return (Inr response), s2) \<Rightarrow>
                (Return None,
                 log_call LogLevelDebug ''Successfully unregistered from network'' s2)))"

definition Initialize :: "'w sys \<Rightarrow> error option \<times> 'w sys" where
  "Initialize s = (None, log_call LogLevelDebug ''Initializing core node...'' s)"

definition Start :: "'w sys \<Rightarrow> error option outcome \<times> 'w sys" where
  "Start s =
     (if State s \<noteq> NodeStateStopped then
        (Return None, log_call LogLevelWarn ''Node is not stopped, skipping start'' s)
      else
        (let s1 = setState NodeStateStarting s in
         case Initialize s1 of
           (Some err, s2) \<Rightarrow>
             (Return (Some (Errorf_wrap ''failed to initialize node: '' err)),
              addError err (setState NodeStateError s2))
         | (None, s2) \<Rightarrow>
             (case Register s2 of
                (Panic, s3) \<Rightarrow> (Panic, s3)
              | (Return r, s3) \<Rightarrow>
                  (let s4 = (case r of
                               Some err \<Rightarrow>
                                 log_call LogLevelError
                                   (''Failed to register node: '' @ error_text err) s3
                             | None \<Rightarrow> s3);
                       s5 = setState NodeStateRunning s4
                   in (Return None, log_call LogLevelInfo ''Node started successfully'' s5)))))"

text \<open>The two steps of \<open>Stop\<close> that may fail, each appending to \<open>errs\<close>.\<close>

definition close_host :: "'w sys \<Rightarrow> error list \<times> 'w sys" where
  "close_host s =
     (case p2pNode (node s) of
        None \<Rightarrow> ([], s)
      | Some h \<Rightarrow>
          (case host_Close h (world s) of
             (Some err, w') \<Rightarrow> ([Errorf_wrap ''failed to close p2p node: '' err], s\<lparr>world := w'\<rparr>)
           | (None, w') \<Rightarrow> ([], s\<lparr>world := w'\<rparr>)))"

definition Stop :: "'w sys \<Rightarrow> error option outcome \<times> 'w sys" where
  "Stop s =
     (let s1 = log_call LogLevelDebug ''Stopping node...'' s;
          s2 = setState NodeStateStopping s1
      in case Unregister s2 of
           (Panic, s3) \<Rightarrow> (Panic, s3)
         | (Return r, s3) \<Rightarrow>
             (let errs = (case r of
                            Some err \<Rightarrow> [Errorf_wrap ''failed to unregister: '' err]
                          | None \<Rightarrow> []);
                  (errs2, s4) = close_host s3;
                  errs = errs @ errs2
              in if length errs > 0 then
                   (Return (Some (Error (''errors during shutdown: '' @ format_errors errs))),
                    fold addError errs (setState NodeStateError s4))
                 else
                   (Return None,
                    log_call LogLevelInfo ''Node stopped successfully''
                      (setState NodeStateStopped s4))))"

section \<open>Notions used to state the properties\<close>

text \<open>
  \<open>all_no_match rs a st w\<close>: every resolver of \<open>rs\<close>, tried in order on \<open>a\<close>, returns an
  error; the result is the store and world they leave behind.
\<close>

fun all_no_match :: "'w AddressResolver list \<Rightarrow> ptr \<Rightarrow> store \<Rightarrow> 'w \<Rightarrow> (store \<times> 'w) option" where
  "all_no_match [] a st w = Some (st, w)"
| "all_no_match (r # rs) a st w =
     (case r a st w of
        (Inl err, st', w') \<Rightarrow> all_no_match rs a st' w'
      | (Inr x, st', w') \<Rightarrow> None)"

text \<open>A slice is valid in a store when it is nil or its backing array is allocated there.\<close>

definition valid_slice :: "store \<Rightarrow> slice \<Rightarrow> bool" where
  "valid_slice st sl = (case sl of None \<Rightarrow> True | Some r \<Rightarrow> r < length (arrays st))"

text \<open>The transport hints an address holds: the contents of \<open>addr.transports\<close>.\<close>

definition transport_list :: "store \<Rightarrow> ptr \<Rightarrow> transport list option" where
  "transport_list st p = map_option (\<lambda>a. elems st (transports a)) (load st p)"

section \<open>Example systems\<close>

text \<open>
  A node as \<open>NewCoreNode\<close> builds it for the address \<open>o://node\<close> (the static address
  is a clone), of type \<open>node\<close>, without leader, host or connection manager. The world is a
  counter of the calls made to collaborators.
\<close>

definition example_parse :: "string \<Rightarrow> error + multiaddr" where
  "example_parse t =
     (if HasPrefix t ''/'' then Inr (Multiaddr t) else Inl (Error ''invalid multiaddr''))"

definition example_store :: store where
  "example_store =
     \<lparr>addrs = [\<lparr>val = ''o://node'', transports = None\<rparr>,
               \<lparr>val = ''o://node'', transports = Some 0\<rparr>],
      arrays = [[]]\<rparr>"

definition example_node :: "nat CoreNode" where
  "example_node =
     \<lparr>p2pNode = None, logger = [], address = 0, staticAddress = 1, peerId = ''peer-1'',
      state = NodeStateStopped, errors = [], connectionManager = None,
      addressResolution = [], successCount = 0, errorCount = 0,
      config = \<lparr>Leader = None, Parent = None, Type = ''node''\<rparr>\<rparr>"

definition example_sys :: "nat sys" where
  "example_sys =
     \<lparr>node = example_node, heap = example_store, world = 0, NewMultiaddr = example_parse\<rparr>"

text \<open>An address with one string hint and one multiaddr hint.\<close>

definition hinted_store :: store where
  "hinted_store =
     \<lparr>addrs = [\<lparr>val = ''o://alias/extra/path'', transports = Some 0\<rparr>],
      arrays = [[TString ''custom-hint'', TMultiaddr (Multiaddr ''/ip4/10.0.0.1/tcp/4001'')]]\<rparr>"

text \<open>
  The address \<open>o://service\<close> after \<open>SetTransportsFromStrings\<close> with one string hint.
\<close>

definition string_hint_store :: store where
  "string_hint_store =
     \<lparr>addrs = [\<lparr>val = ''o://service'', transports = Some 0\<rparr>],
      arrays = [[TString ''/ip4/10.0.0.1/tcp/4001'']]\<rparr>"

text \<open>A node of type \<open>leader\<close> with a host that listens on one address.\<close>

definition leader_sys :: "nat sys" where
  "leader_sys =
     example_sys\<lparr>node := example_node
       \<lparr>p2pNode := Some \<lparr>Addrs = (\<lambda>w. [Multiaddr ''/ip4/10.0.0.9/tcp/4001'']),
                          host_Close = (\<lambda>w. (None, Suc w))\<rparr>,
        config := \<lparr>Leader = None, Parent = None, Type = ''leader''\<rparr>\<rparr>\<rparr>"

text \<open>
  A node configured with a leader address (pointer 0) that carries one multiaddr hint;
  pointer 1 is an address without hints.
\<close>

definition follower_sys :: "nat sys" where
  "follower_sys =
     example_sys
       \<lparr>heap := \<lparr>addrs = [\<lparr>val = ''o://leader'', transports = Some 0\<rparr>,
                          \<lparr>val = ''o://tools/calc'', transports = None\<rparr>],
                 arrays = [[TMultiaddr (Multiaddr ''/ip4/10.0.0.9/tcp/4001'')]]\<rparr>,
        node := example_node\<lparr>config := \<lparr>Leader = Some 0, Parent = None, Type = ''node''\<rparr>\<rparr>\<rparr>"

section \<open>Properties of the store\<close>

lemma addrs_fill [simp]: "addrs (fill st r i ts) = addrs st"
  by (induction ts arbitrary: st i) (simp_all add: set_elem_def)

lemma length_arrays_fill [simp]: "length (arrays (fill st r i ts)) = length (arrays st)"
  by (induction ts arbitrary: st i) (simp_all add: set_elem_def)

lemma arrays_fill_other: "r' \<noteq> r \<Longrightarrow> arrays (fill st r i ts) ! r' = arrays st ! r'"
  by (induction ts arbitrary: st i) (simp_all add: set_elem_def)

lemma arrays_fill_same:
  "r < length (arrays st) \<Longrightarrow> i + length ts \<le> length (arrays st ! r) \<Longrightarrow>
   arrays (fill st r i ts) ! r = take i (arrays st ! r) @ ts @ drop (i + length ts) (arrays st ! r)"
proof (induction ts arbitrary: st i)
  case Nil
  then show ?case by simp
next
  case (Cons t ts)
  let ?st = "set_elem st r i t"
  have r: "r < length (arrays ?st)" using Cons.prems by (simp add: set_elem_def)
  have old: "arrays ?st ! r = (arrays st ! r)[i := t]"
    using Cons.prems by (simp add: set_elem_def)
  have len: "Suc i + length ts \<le> length (arrays ?st ! r)"
    using Cons.prems old by simp
  have "arrays (fill ?st r (Suc i) ts) ! r
        = take (Suc i) (arrays ?st ! r) @ ts @ drop (Suc i + length ts) (arrays ?st ! r)"
    by (rule Cons.IH[OF r len])
  also have "take (Suc i) (arrays ?st ! r) = take i (arrays st ! r) @ [t]"
    using Cons.prems old by (simp add: take_Suc_conv_app_nth)
  also have "drop (Suc i + length ts) (arrays ?st ! r) = drop (i + length (t # ts)) (arrays st ! r)"
    using old by simp
  finally show ?case by simp
qed

lemma fill_fresh:
  "fill (st\<lparr>arrays := arrays st @ [replicate (length ts) TNil]\<rparr>) (length (arrays st)) 0 ts
   = st\<lparr>arrays := arrays st @ [ts]\<rparr>"
  (is "fill ?st0 ?r 0 ts = ?st1")
proof -
  have a: "addrs (fill ?st0 ?r 0 ts) = addrs ?st1" by simp
  have l: "length (arrays (fill ?st0 ?r 0 ts)) = length (arrays ?st1)" by simp
  have same: "arrays (fill ?st0 ?r 0 ts) ! ?r = ts"
    using arrays_fill_same[of ?r ?st0 0 ts] by simp
  have "arrays (fill ?st0 ?r 0 ts) = arrays ?st1"
  proof (rule nth_equalityI)
    show "length (arrays (fill ?st0 ?r 0 ts)) = length (arrays ?st1)" by (rule l)
  next
    fix j assume "j < length (arrays (fill ?st0 ?r 0 ts))"
    then have j: "j < Suc (length (arrays st))" by simp
    show "arrays (fill ?st0 ?r 0 ts) ! j = arrays ?st1 ! j"
    proof (cases "j = ?r")
      case True
      then show ?thesis using same by simp
    next
      case False
      then show ?thesis using j by (simp add: arrays_fill_other nth_append)
    qed
  qed
  with a show ?thesis by (simp add: store.equality) 
qed

lemma fill_fresh_addrs:
  "fill \<lparr>addrs = xs, arrays = arr @ [replicate (length ts) TNil]\<rparr> (length arr) 0 ts
   = \<lparr>addrs = xs, arrays = arr @ [ts]\<rparr>"
  using fill_fresh[of "\<lparr>addrs = xs, arrays = arr\<rparr>" ts] by simp

lemma SetTransports_eq:
  "SetTransports st p ts =
     (if p < length (addrs st)
      then Some \<lparr>addrs = (addrs st)[p := (addrs st ! p)\<lparr>transports := Some (length (arrays st))\<rparr>],
                 arrays = arrays st @ [map TMultiaddr ts]\<rparr>
      else None)"
  using fill_fresh_addrs[of _ "arrays st" "map TMultiaddr ts"]
  by (cases st) (simp add: SetTransports_def load_def make_slice_def)

lemma SetTransportsFromStrings_eq:
  "SetTransportsFromStrings st p ts =
     (if p < length (addrs st)
      then Some \<lparr>addrs = (addrs st)[p := (addrs st ! p)\<lparr>transports := Some (length (arrays st))\<rparr>],
                 arrays = arrays st @ [map TString ts]\<rparr>
      else None)"
  using fill_fresh_addrs[of _ "arrays st" "map TString ts"]
  by (cases st) (simp add: SetTransportsFromStrings_def load_def make_slice_def)

lemma strings_to_slice_eq:
  "strings_to_slice st ts = (length (arrays st), \<lparr>addrs = addrs st, arrays = arrays st @ [map TString ts]\<rparr>)"
  using fill_fresh_addrs[of "addrs st" "arrays st" "map TString ts"]
  by (cases st) (simp add: strings_to_slice_def make_slice_def)

lemma Clone_eq:
  "Clone st p =
     (if p < length (addrs st)
      then Some (length (addrs st),
                 \<lparr>addrs = addrs st @ [\<lparr>val = val (addrs st ! p), transports = Some (length (arrays st))\<rparr>],
                  arrays = arrays st @ [elems st (transports (addrs st ! p))]\<rparr>)
      else None)"
proof (cases "p < length (addrs st)")
  case False
  then show ?thesis by (simp add: Clone_def load_def)
next
  case True
  let ?a = "addrs st ! p"
  let ?src = "elems st (transports ?a)"
  let ?xs = "addrs st @ [\<lparr>val = val ?a, transports = Some (length (arrays st))\<rparr>]"
  let ?st2 = "\<lparr>addrs = ?xs, arrays = arrays st @ [replicate (length ?src) TNil]\<rparr>"
  have e: "elems ?st2 (transports ?a) = ?src"
    by (auto simp: elems_def nth_append split: option.splits)
  have "copy_elems ?st2 (length (arrays st)) (elems ?st2 (transports ?a))
        = \<lparr>addrs = ?xs, arrays = arrays st @ [?src]\<rparr>"
    unfolding e copy_elems_def using fill_fresh_addrs[of ?xs "arrays st" ?src] by simp
  then show ?thesis using True
    by (cases st) (simp add: Clone_def load_def make_slice_def new_struct_def)
qed

section \<open>Appending a path\<close>

text \<open>
  Claim C9. \<open>WithPath\<close> is claimed to join the receiver's value and the segment with a
  single \<open>/\<close>, also when the value ends with \<open>/\<close> and the segment begins with \<open>/\<close>.
  The guard of \<open>WithPath\<close> only decides whether to insert a separator; when both
  slashes are present it removes neither: appending \<open>/b\<close> to \<open>o://a/\<close> yields
  \<open>o://a//b\<close>.
\<close>

theorem WithPath_double_slash:
  "WithPath \<lparr>addrs = [\<lparr>val = ''o://a/'', transports = None\<rparr>], arrays = []\<rparr> 0 ''/b''
   = Some (1, \<lparr>addrs = [\<lparr>val = ''o://a/'', transports = None\<rparr>,
                        \<lparr>val = ''o://a//b'', transports = None\<rparr>], arrays = []\<rparr>)"
  by (simp add: WithPath_def load_def NewOAddress_def new_struct_def WithPath_value_def
                HasSuffix_def HasPrefix_def)

section \<open>Resolver chain\<close>

text \<open>
  Claim C3. \<open>Resolve\<close> never returns an error. With no resolver it returns the address
  it was given. Otherwise either some resolver matches after all resolvers registered
  before it returned an error, and \<open>Resolve\<close> returns exactly what that resolver
  returned; or every resolver returned an error and \<open>Resolve\<close> returns the address it
  was given.
\<close>

theorem Resolve_first_match:
  "Resolve [] a st w = (Inr a, st, w) \<and>
   ((\<exists>pre r post st1 w1 x st' w'.
        rs = pre @ r # post \<and> all_no_match pre a st w = Some (st1, w1) \<and>
        r a st1 w1 = (Inr x, st', w') \<and> Resolve rs a st w = (Inr x, st', w'))
    \<or> (\<exists>st' w'. all_no_match rs a st w = Some (st', w') \<and>
                 Resolve rs a st w = (Inr a, st', w')))"
proof (induction rs arbitrary: st w)
  case Nil
  show ?case by simp
next
  case (Cons r rs)
  obtain res st1 w1 where r: "r a st w = (res, st1, w1)"
    by (cases "r a st w") auto
  show ?case
  proof (cases res)
    case (Inr x)
    with r have "r # rs = [] @ r # rs \<and> all_no_match [] a st w = Some (st, w) \<and>
        r a st w = (Inr x, st1, w1) \<and> Resolve (r # rs) a st w = (Inr x, st1, w1)"
      by simp
    then show ?thesis by (intro conjI disjI1) (simp, blast)
  next
    case (Inl err)
    with r have step: "Resolve (r # rs) a st w = Resolve rs a st1 w1"
      and nm: "\<And>pre. all_no_match (r # pre) a st w = all_no_match pre a st1 w1"
      by simp_all
    from Cons.IH[of st1 w1] consider
      (match) pre r' post st2 w2 x st' w' where
        "rs = pre @ r' # post" "all_no_match pre a st1 w1 = Some (st2, w2)"
        "r' a st2 w2 = (Inr x, st', w')" "Resolve rs a st1 w1 = (Inr x, st', w')"
    | (none) st' w' where "all_no_match rs a st1 w1 = Some (st', w')"
        "Resolve rs a st1 w1 = (Inr a, st', w')"
      by blast
    then show ?thesis
    proof cases
      case match
      then have "r # rs = (r # pre) @ r' # post \<and> all_no_match (r # pre) a st w = Some (st2, w2) \<and>
          r' a st2 w2 = (Inr x, st', w') \<and> Resolve (r # rs) a st w = (Inr x, st', w')"
        using step nm by simp
      then show ?thesis by (intro conjI disjI1) (simp, blast)
    next
      case none
      then show ?thesis using step nm by simp
    qed
  qed
qed

section \<open>Starting a node that is not stopped\<close>

text \<open>
  Claim C7. When the state is not \<open>Stopped\<close>, \<open>Start\<close> returns nil and only logs
  one warning: state, counters, error list, store and world are unchanged, and the
  logger receives neither the message of \<open>Initialize\<close> nor one of \<open>Register\<close>.
\<close>

theorem Start_not_stopped_noop:
  assumes "State s \<noteq> NodeStateStopped"
  shows "Start s = (Return None,
           s\<lparr>node := (node s)\<lparr>logger := logger (node s) @
                [(LogLevelWarn, ''Node is not stopped, skipping start'')]\<rparr>\<rparr>)
         \<and> state (node (snd (Start s))) = state (node s)
         \<and> successCount (node (snd (Start s))) = successCount (node s)
         \<and> errorCount (node (snd (Start s))) = errorCount (node s)
         \<and> errors (node (snd (Start s))) = errors (node s)
         \<and> heap (snd (Start s)) = heap s \<and> world (snd (Start s)) = world s"
  using assms by (simp add: Start_def log_call_def)

theorem Start_not_stopped_noop_witness:
  "State (setState NodeStateRunning example_sys) \<noteq> NodeStateStopped
   \<and> Start (setState NodeStateRunning example_sys)
       = (Return None,
          (setState NodeStateRunning example_sys)
            \<lparr>node := (node (setState NodeStateRunning example_sys))
               \<lparr>logger := [(LogLevelWarn, ''Node is not stopped, skipping start'')]\<rparr>\<rparr>)"
proof -
  have h: "State (setState NodeStateRunning example_sys) \<noteq> NodeStateStopped"
    by (simp add: State_def setState_def)
  from Start_not_stopped_noop[OF h] h show ?thesis
    by (simp add: setState_def example_sys_def example_node_def)
qed

section \<open>Cloning an address\<close>

text \<open>
  Claim C10. For a valid address whose slice is valid, \<open>Clone\<close> returns a new address
  with the same value and the same transport list, held in a backing array that did not
  exist before; the original is unchanged. Replacing the transports of the clone with
  \<open>SetTransports\<close> or \<open>SetTransportsFromStrings\<close> leaves the value and the
  transport list of the original as they were, and replacing those of the original leaves
  the clone's as they were.
\<close>

theorem Clone_independent:
  assumes "load st addr = Some a" and "valid_slice st (transports a)"
  shows "\<exists>newAddr st' r.
           Clone st addr = Some (newAddr, st')
         \<and> load st newAddr = None
         \<and> Value st' newAddr = Some (val a)
         \<and> transport_list st' newAddr = Some (elems st (transports a))
         \<and> map_option transports (load st' newAddr) = Some (Some r)
         \<and> length (arrays st) \<le> r \<and> transports a \<noteq> Some r
         \<and> load st' addr = Some a
         \<and> transport_list st' addr = Some (elems st (transports a))
         \<and> (\<exists>st''. SetTransports st' newAddr ts = Some st''
                \<and> Value st'' addr = Some (val a)
                \<and> transport_list st'' addr = Some (elems st (transports a)))
         \<and> (\<exists>st''. SetTransportsFromStrings st' newAddr ss = Some st''
                \<and> Value st'' addr = Some (val a)
                \<and> transport_list st'' addr = Some (elems st (transports a)))
         \<and> (\<exists>st''. SetTransports st' addr ts = Some st''
                \<and> Value st'' newAddr = Some (val a)
                \<and> transport_list st'' newAddr = Some (elems st (transports a)))
         \<and> (\<exists>st''. SetTransportsFromStrings st' addr ss = Some st''
                \<and> Value st'' newAddr = Some (val a)
                \<and> transport_list st'' newAddr = Some (elems st (transports a)))"
proof -
  from assms have p: "addr < length (addrs st)" and a: "a = addrs st ! addr"
    by (auto simp: load_def split: if_splits)
  show ?thesis
    using p a assms(2)
    apply (simp add: valid_slice_def Clone_eq SetTransports_eq SetTransportsFromStrings_eq)
    apply (auto simp: load_def Value_def transport_list_def elems_def nth_append nth_list_update
                split: option.splits)
    done
qed

theorem Clone_independent_witness:
  "load hinted_store 0 = Some \<lparr>val = ''o://alias/extra/path'', transports = Some 0\<rparr>
   \<and> valid_slice hinted_store (Some 0)
   \<and> (\<exists>newAddr st' st''.
         Clone hinted_store 0 = Some (newAddr, st')
       \<and> SetTransports st' newAddr [] = Some st''
       \<and> transport_list st'' 0
           = Some [TString ''custom-hint'', TMultiaddr (Multiaddr ''/ip4/10.0.0.1/tcp/4001'')])"
proof -
  have h1: "load hinted_store 0 = Some \<lparr>val = ''o://alias/extra/path'', transports = Some 0\<rparr>"
    by (simp add: load_def hinted_store_def)
  have h2: "valid_slice hinted_store (transports \<lparr>val = ''o://alias/extra/path'', transports = Some 0\<rparr>)"
    by (simp add: valid_slice_def hinted_store_def)
  have e: "elems hinted_store (Some 0)
           = [TString ''custom-hint'', TMultiaddr (Multiaddr ''/ip4/10.0.0.1/tcp/4001'')]"
    by (simp add: elems_def hinted_store_def)
  from Clone_independent[OF h1 h2, of "[]" "[]"] h1 h2 e show ?thesis
    by auto
qed

section \<open>Transport selection\<close>

text \<open>
  Claim C6, as stated, promises that explicit transport hints on the address are
  returned verbatim. \<open>GetTransports\<close> only looks at the multiaddr hints
  (\<open>LibP2PTransports\<close>): the address \<open>o://service\<close> carrying the string hint set
  by \<open>SetTransportsFromStrings\<close> gets the empty list on a node without leader.
\<close>

theorem GetTransports_string_hint_counterexample:
  "transport_list string_hint_store 0 = Some [TString ''/ip4/10.0.0.1/tcp/4001'']
   \<and> fst (GetTransports (example_sys\<lparr>heap := string_hint_store\<rparr>) 0) = Return []"
  by (simp add: string_hint_store_def transport_list_def load_def elems_def GetTransports_def
                LibP2PTransports_def log_call_def example_sys_def example_node_def Type'_def
                NodeTypeLeader_def)

text \<open>
  Claim C6, amended. Let \<open>hints\<close> be the multiaddr hints of the address (string hints
  are skipped). If there are any, they are returned and nothing else happens. Otherwise,
  with no leader configured, a node of type \<open>leader\<close> returns its own listen transports
  (the texts of \<open>Transports\<close> that parse) and any other node returns the empty list
  after logging a warning; with a leader configured, whatever the node's type, the
  multiaddr hints of the leader address are returned.
\<close>

theorem GetTransports_precedence:
  assumes "LibP2PTransports (heap s) addr = Some hints"
  shows "(hints \<noteq> [] \<longrightarrow> GetTransports s addr = (Return hints, s))
       \<and> (hints = [] \<and> Leader (config (node s)) = None \<and> Type' s = NodeTypeLeader \<longrightarrow>
            GetTransports s addr =
              (Return (parse_transports (NewMultiaddr s) (Transports s)),
               log_call LogLevelDebug ''Node is a leader, using own transports''
                 (log_call LogLevelDebug
                    ''No leader transports provided, searching within network'' s)))
       \<and> (hints = [] \<and> Leader (config (node s)) = None \<and> Type' s \<noteq> NodeTypeLeader \<longrightarrow>
            GetTransports s addr =
              (Return [],
               log_call LogLevelWarn
                 ''Not within a network, cannot search for addressed node without leader''
                 (log_call LogLevelDebug
                    ''No leader transports provided, searching within network'' s)))
       \<and> (\<forall>leader lhints. hints = [] \<and> Leader (config (node s)) = Some leader
              \<and> LibP2PTransports (heap s) leader = Some lhints \<longrightarrow>
            GetTransports s addr =
              (Return lhints,
               log_call LogLevelDebug
                 ''No leader transports provided, searching within network'' s))"
  using assms
  by (auto simp: GetTransports_def Let_def log_call_def Type'_def Transports_def
           split: option.splits)

theorem GetTransports_precedence_witness:
  "LibP2PTransports hinted_store 0 = Some [Multiaddr ''/ip4/10.0.0.1/tcp/4001'']
   \<and> fst (GetTransports (example_sys\<lparr>heap := hinted_store\<rparr>) 0)
       = Return [Multiaddr ''/ip4/10.0.0.1/tcp/4001'']
   \<and> LibP2PTransports example_store 0 = Some []
   \<and> fst (GetTransports example_sys 0) = Return []
   \<and> fst (GetTransports leader_sys 0) = Return [Multiaddr ''/ip4/10.0.0.9/tcp/4001'']
   \<and> fst (GetTransports follower_sys 1) = Return [Multiaddr ''/ip4/10.0.0.9/tcp/4001'']"
proof -
  have h1: "LibP2PTransports (heap (example_sys\<lparr>heap := hinted_store\<rparr>)) 0
            = Some [Multiaddr ''/ip4/10.0.0.1/tcp/4001'']"
    by (simp add: LibP2PTransports_def load_def elems_def hinted_store_def)
  have c1: "fst (GetTransports (example_sys\<lparr>heap := hinted_store\<rparr>) 0)
            = Return [Multiaddr ''/ip4/10.0.0.1/tcp/4001'']"
    using GetTransports_precedence[OF h1] by simp
  have h2: "LibP2PTransports (heap example_sys) 0 = Some []"
    by (simp add: LibP2PTransports_def load_def elems_def example_sys_def example_store_def)
  have t2: "Leader (config (node example_sys)) = None \<and> Type' example_sys \<noteq> NodeTypeLeader"
    by (simp add: example_sys_def example_node_def Type'_def NodeTypeLeader_def)
  have c2: "fst (GetTransports example_sys 0) = Return []"
    using GetTransports_precedence[OF h2] t2 by simp
  have h3: "LibP2PTransports (heap leader_sys) 0 = Some []"
    by (simp add: LibP2PTransports_def load_def elems_def leader_sys_def example_sys_def
                  example_store_def)
  have t3: "Leader (config (node leader_sys)) = None \<and> Type' leader_sys = NodeTypeLeader"
    by (simp add: leader_sys_def example_sys_def example_node_def Type'_def NodeTypeLeader_def)
  have p3: "parse_transports (NewMultiaddr leader_sys) (Transports leader_sys)
            = [Multiaddr ''/ip4/10.0.0.9/tcp/4001'']"
    by (simp add: leader_sys_def example_sys_def example_node_def Transports_def
                  example_parse_def HasPrefix_def)
  have c3: "fst (GetTransports leader_sys 0) = Return [Multiaddr ''/ip4/10.0.0.9/tcp/4001'']"
    using GetTransports_precedence[OF h3] t3 p3 by simp
  have h4: "LibP2PTransports (heap follower_sys) 1 = Some []"
    by (simp add: LibP2PTransports_def load_def elems_def follower_sys_def example_sys_def)
  have t4: "Leader (config (node follower_sys)) = Some 0
            \<and> LibP2PTransports (heap follower_sys) 0 = Some [Multiaddr ''/ip4/10.0.0.9/tcp/4001'']"
    by (simp add: LibP2PTransports_def load_def elems_def follower_sys_def example_sys_def
                  example_node_def)
  have c4: "fst (GetTransports follower_sys 1) = Return [Multiaddr ''/ip4/10.0.0.9/tcp/4001'']"
    using GetTransports_precedence[OF h4] t4 by simp
  from h1 h2 c1 c2 c3 c4 show ?thesis
    by (simp add: example_sys_def)
qed

end
